theory Spec2Isabelle
  imports Complex_Main "HOL-Library.Log_Nat"
begin

section \<open>Strings\<close>

text \<open>
  Usernames and keys are strings. \<open>toLowerCase\<close> is JavaScript's
  \<open>String.prototype.toLowerCase\<close>; Isabelle characters are bytes, so the model folds
  the letters \<open>A\<close> to \<open>Z\<close> and leaves every other byte as it is. No theorem below
  depends on which characters are folded.
\<close>

definition lowerChar :: "char \<Rightarrow> char" where
  "lowerChar c =
     (let n = (of_char c :: nat) in if 65 \<le> n \<and> n \<le> 90 then char_of (n + 32) else c)"

definition toLowerCase :: "string \<Rightarrow> string" where
  "toLowerCase s = map lowerChar s"

text \<open>\<open>s.startsWith(p)\<close> and \<open>s.includes(p)\<close>.\<close>

definition startsWith :: "string \<Rightarrow> string \<Rightarrow> bool" where
  "startsWith s p = (take (length p) s = p)"

fun includes_str :: "string \<Rightarrow> string \<Rightarrow> bool" where
  "includes_str [] p = (p = [])"
| "includes_str (c # cs) p = (startsWith (c # cs) p \<or> includes_str cs p)"

section \<open>The key-value store\<close>

text \<open>
  Modelled from the spec: the Redis server behind the \<open>ioredis\<close> client
  (\<open>redis.get\<close>, \<open>redis.set\<close>) is not part of the sources. Section 6 of the
  specification gives its contract: \<open>get(key)\<close> returns a string or null and
  \<open>set(key, value, ttlSeconds?)\<close> stores a value, with an expiry when a TTL is given.
  An entry is a value and the instant (epoch milliseconds) at which it expires, if any;
  a plain \<open>set\<close> replaces the entry and with it any earlier expiry. Time is read in
  epoch milliseconds, as \<open>Date.now()\<close> gives it.
\<close>

type_synonym redis = "string \<Rightarrow> (string \<times> int option) option"

definition redis_get :: "redis \<Rightarrow> int \<Rightarrow> string \<Rightarrow> string option" where
  "redis_get r now k =
     (case r k of
        None \<Rightarrow> None
      | Some (v, None) \<Rightarrow> Some v
      | Some (v, Some expiry) \<Rightarrow> if now < expiry then Some v else None)"

definition redis_set :: "redis \<Rightarrow> string \<Rightarrow> string \<Rightarrow> redis" where
  "redis_set r k v = r(k \<mapsto> (v, None))"

definition redis_set_EX :: "redis \<Rightarrow> int \<Rightarrow> string \<Rightarrow> string \<Rightarrow> int \<Rightarrow> redis" where
  "redis_set_EX r now k v seconds = r(k \<mapsto> (v, Some (now + seconds * 1000)))"

section \<open>The availability cache\<close>

definition CACHE_PREFIX :: string where
  "CACHE_PREFIX = ''hytale:username:''"

definition AVAILABLE_TTL :: int where
  "AVAILABLE_TTL = 60"

definition getCachedAvailability :: "redis \<Rightarrow> int \<Rightarrow> string \<Rightarrow> bool option" where
  "getCachedAvailability r now username =
     (case redis_get r now (CACHE_PREFIX @ toLowerCase username) of
        None \<Rightarrow> None
      | Some cached \<Rightarrow> Some (cached = ''1''))"

definition setCachedAvailability :: "redis \<Rightarrow> int \<Rightarrow> string \<Rightarrow> bool \<Rightarrow> redis" where
  "setCachedAvailability r now username available =
     (let key = CACHE_PREFIX @ toLowerCase username in
      if available then redis_set_EX r now key ''1'' AVAILABLE_TTL
      else redis_set r key ''0'')"

section \<open>The rate limiter\<close>

text \<open>
  The limiter is an object of the class \<open>Ratelimit\<close> of the package
  \<open>@upstash/ratelimit\<close>, built with \<open>Ratelimit.slidingWindow(30, "60 s")\<close> and the
  prefix \<open>hytale:ratelimit\<close>. The package is not part of the sources; the sources call
  \<open>ratelimit.limit("check_username", { ip })\<close> and read \<open>success\<close> and \<open>reset\<close> of
  the answer.
\<close>

record limit_request =
  ip :: string

record ratelimit_response =
  success :: bool
  reset :: int

type_synonym ratelimit = "string \<Rightarrow> int list"

definition RATELIMIT_PREFIX :: string where
  "RATELIMIT_PREFIX = ''hytale:ratelimit''"

definition TOKENS :: nat where
  "TOKENS = 30"

definition WINDOW_MS :: int where
  "WINDOW_MS = 60 * 1000"

text \<open>
  The key of a window. \<open>limit(identifier, req)\<close> joins the limiter's prefix to the
  identifier, its first argument; the second argument describes the request (its
  \<open>ip\<close>, for the package's deny lists) and is not part of the key.
\<close>

definition getKey :: "string \<Rightarrow> string" where
  "getKey identifier = RATELIMIT_PREFIX @ '':'' @ identifier"

text \<open>
  Modelled from the spec: the sliding-window policy of \<open>limit\<close>, which the package
  runs inside the store. Section 4.3 allows 30 permits per rolling 60-second window
  and has a denial return the epoch millisecond at which the window resets. The state
  keeps, for every key, the instants of the permits granted within the last window; a
  permit is granted when fewer than 30 of them remain, and \<open>reset\<close> is the instant
  at which the oldest of them leaves the window.
\<close>

definition Ratelimit_limit ::
  "ratelimit \<Rightarrow> int \<Rightarrow> string \<Rightarrow> limit_request \<Rightarrow> ratelimit_response \<times> ratelimit" where
  "Ratelimit_limit rl now identifier req =
     (let key = getKey identifier;
          window = filter (\<lambda>t. now - WINDOW_MS < t) (rl key);
          resetAt = fold min window now + WINDOW_MS
      in if length window < TOKENS
         then (\<lparr>success = True, reset = resetAt\<rparr>, rl(key := now # window))
         else (\<lparr>success = False, reset = resetAt\<rparr>, rl(key := window)))"

section \<open>Cookies and the session\<close>

text \<open>
  A cookie of the jar (\<open>tough-cookie\<close>): its key, its value, its \<open>expires\<close>
  attribute, which is absent, the string \<open>"Infinity"\<close> or a date, and its
  \<open>maxAge\<close>. A \<open>Max-Age\<close> takes precedence over \<open>Expires\<close> for the time at which the
  jar drops the cookie: it is absent, or keeps the cookie until an instant (the
  instant it is counted from plus \<open>maxAge * 1000\<close>), or, being zero or less, has the
  cookie expired at all times.
\<close>

datatype cookie_expires = No_expires | Infinity | Expires_at int

datatype max_age = No_max_age | Max_age_until int | Max_age_expired

record cookie =
  c_key :: string
  c_value :: string
  c_expires :: cookie_expires
  c_maxAge :: max_age

text \<open>
  The jar holds, for a URL, the cookies that match it. A read of the jar
  (\<open>getCookiesSync(url)\<close>, with the expiry check that is on by default) leaves out
  every cookie whose expiry time is the current instant or earlier.
\<close>

type_synonym cookie_jar = "string \<Rightarrow> cookie list"

definition expired :: "cookie \<Rightarrow> int \<Rightarrow> bool" where
  "expired c now =
     (case c_maxAge c of
        Max_age_expired \<Rightarrow> True
      | Max_age_until t \<Rightarrow> t \<le> now
      | No_max_age \<Rightarrow>
          (case c_expires c of
             Expires_at ms \<Rightarrow> ms \<le> now
           | Infinity \<Rightarrow> False
           | No_expires \<Rightarrow> False))"

definition getCookiesSync :: "cookie_jar \<Rightarrow> int \<Rightarrow> string \<Rightarrow> cookie list" where
  "getCookiesSync jar now url = filter (\<lambda>c. \<not> expired c now) (jar url)"

text \<open>
  \<open>new Date(expires)\<close>: a date of the given epoch milliseconds, or the invalid date
  (whose \<open>getTime()\<close> is NaN) for \<open>"Infinity"\<close>. The sources apply it only to an
  \<open>expires\<close> that is present.
\<close>

datatype js_date = Invalid_date | Date_ms int

fun new_Date :: "cookie_expires \<Rightarrow> js_date" where
  "new_Date (Expires_at ms) = Date_ms ms"
| "new_Date Infinity = Invalid_date"
| "new_Date No_expires = Invalid_date"

definition isSessionValid :: "cookie_jar \<Rightarrow> int \<Rightarrow> bool" where
  "isSessionValid cookieJar now =
     (case find (\<lambda>c. c_key c = ''ory_kratos_session'')
             (getCookiesSync cookieJar now ''https://hytale.com'') of
        None \<Rightarrow> False
      | Some sessionCookie \<Rightarrow>
          if c_expires sessionCookie = No_expires then False
          else (case new_Date (c_expires sessionCookie) of
                  Invalid_date \<Rightarrow> False
                | Date_ms expiresAt \<Rightarrow> now < expiresAt - 5 * 60 * 1000))"

definition getSessionExpiry :: "cookie_jar \<Rightarrow> int \<Rightarrow> js_date option" where
  "getSessionExpiry cookieJar now =
     (case find (\<lambda>c. c_key c = ''ory_kratos_session'')
             (getCookiesSync cookieJar now ''https://hytale.com'') of
        None \<Rightarrow> None
      | Some sessionCookie \<Rightarrow>
          if c_expires sessionCookie \<noteq> No_expires
          then Some (new_Date (c_expires sessionCookie))
          else None)"

section \<open>The origin and the state of the process\<close>

text \<open>
  A response of the origin, as far as the program reads it: the status, the
  \<open>location\<close> header, the body, and what \<open>fetch-cookie\<close> writes into the jar from
  the response's \<open>Set-Cookie\<close> headers. The origin is the answer to each request the
  program sends. Every request is taken to be answered: a rejected \<open>fetch\<close> and an
  unreachable store are outside the model.
\<close>

record response =
  r_status :: nat
  r_location :: "string option"
  r_body :: string
  r_set_cookies :: "cookie_jar \<Rightarrow> cookie_jar"

datatype request =
    Get_login_browser
  | Post_login string string
  | Get_redirect string
  | Get_availability string

record origin =
  login_browser :: response
  login_submit :: "string \<Rightarrow> string \<Rightarrow> response"
  redirect_target :: "string \<Rightarrow> response"
  availability :: "string \<Rightarrow> response"

fun respond :: "origin \<Rightarrow> request \<Rightarrow> response" where
  "respond org Get_login_browser = login_browser org"
| "respond org (Post_login flowId csrf_token) = login_submit org flowId csrf_token"
| "respond org (Get_redirect url) = redirect_target org url"
| "respond org (Get_availability username) = availability org username"

text \<open>
  The state the program works on: the store behind \<open>redis\<close>, the limiter's windows,
  the cookie jar, the requests sent to the origin so far (oldest first), and whether
  the process has sent itself \<open>SIGTERM\<close>.
\<close>

record world =
  redis :: redis
  ratelimit :: ratelimit
  cookieJar :: cookie_jar
  requests :: "request list"
  sigterm :: bool

text \<open>
  \<open>fetchWithCookies\<close> sends the request and, when the response arrives, stores its
  cookies in the jar. The two halves are apart because the caller is suspended
  between them (\<open>await\<close>).
\<close>

definition send :: "request \<Rightarrow> world \<Rightarrow> world" where
  "send req w = w\<lparr>requests := requests w @ [req]\<rparr>"

definition receive :: "response \<Rightarrow> world \<Rightarrow> world" where
  "receive resp w = w\<lparr>cookieJar := r_set_cookies resp (cookieJar w)\<rparr>"

definition fetchWithCookies :: "origin \<Rightarrow> request \<Rightarrow> world \<Rightarrow> response \<times> world" where
  "fetchWithCookies org req w = (let resp = respond org req in (resp, receive resp (send req w)))"

section \<open>Login\<close>

text \<open>The match of \<open>/flow=([a-f0-9-]+)/\<close>: its first group, at the leftmost match.\<close>

definition flowChar :: "char \<Rightarrow> bool" where
  "flowChar c = (c \<in> set ''abcdef0123456789-'')"

fun flowMatch :: "string \<Rightarrow> string option" where
  "flowMatch [] = None"
| "flowMatch (c # cs) =
     (let m = takeWhile flowChar (drop 5 (c # cs))
      in if startsWith (c # cs) ''flow='' \<and> m \<noteq> [] then Some m else flowMatch cs)"

datatype login_error =
    Could_not_extract_flow_ID
  | Could_not_find_CSRF_token_cookie
  | Login_failed nat string

text \<open>
  \<open>login\<close> sends the first request and is suspended; \<open>login_resume\<close> is the rest of
  its body, from the arrival of that response. An error thrown keeps what was sent and
  stored before it. The CSRF cookie is read from what the first response has just
  stored, without the expiry check of that read, and the last request, like every
  request, is taken to be answered.
\<close>

definition login_resume :: "origin \<Rightarrow> world \<Rightarrow> (login_error + unit) \<times> world" where
  "login_resume org w =
     (let initResponse = login_browser org;
          w1 = receive initResponse w
      in case Option.bind (r_location initResponse) flowMatch of
           None \<Rightarrow> (Inl Could_not_extract_flow_ID, w1)
         | Some flowId \<Rightarrow>
            (case find (\<lambda>c. startsWith (c_key c) ''csrf_token'')
                    (cookieJar w1 ''https://backend.accounts.hytale.com'') of
               None \<Rightarrow> (Inl Could_not_find_CSRF_token_cookie, w1)
             | Some csrfCookie \<Rightarrow>
                (let (loginResponse, w2) =
                       fetchWithCookies org (Post_login flowId (c_value csrfCookie)) w1
                 in case r_location loginResponse of
                      None \<Rightarrow>
                        (Inl (Login_failed (r_status loginResponse)
                               (take 200 (r_body loginResponse))), w2)
                    | Some redirectLocation \<Rightarrow>
                        if r_status loginResponse \<noteq> 303
                           \<or> \<not> includes_str redirectLocation ''/settings''
                        then (Inl (Login_failed (r_status loginResponse)
                                    (take 200 (r_body loginResponse))), w2)
                        else (Inr (), snd (fetchWithCookies org (Get_redirect redirectLocation) w2)))))"

definition login :: "origin \<Rightarrow> world \<Rightarrow> (login_error + unit) \<times> world" where
  "login org w = login_resume org (send Get_login_browser w)"

text \<open>
  \<open>ensureLoggedIn\<close> catches every error of \<open>login\<close> and sends the process
  \<open>SIGTERM\<close>; it has no error of its own to return.
\<close>

definition ensureLoggedIn :: "origin \<Rightarrow> int \<Rightarrow> world \<Rightarrow> world" where
  "ensureLoggedIn org now w =
     (if isSessionValid (cookieJar w) now then w
      else (case login org w of
              (Inr _, w') \<Rightarrow> w'
            | (Inl error, w') \<Rightarrow> w'\<lparr>sigterm := True\<rparr>))"

section \<open>Checking a username\<close>

datatype CheckResult =
    Ok_result bool bool
  | Hytale_api_error nat
  | Rate_limited int

text \<open>
  \<open>Ok_result available cached\<close>, \<open>Hytale_api_error status\<close> and
  \<open>Rate_limited retryAfter\<close>. The clock is read once for a call: \<open>now\<close> is the time
  of the store, of the limiter and of \<open>Date.now()\<close>.
\<close>

definition checkUsername ::
  "origin \<Rightarrow> int \<Rightarrow> string \<Rightarrow> string \<Rightarrow> world \<Rightarrow> CheckResult \<times> world" where
  "checkUsername org now username ip_address w =
     (case getCachedAvailability (redis w) now username of
        Some cached \<Rightarrow> (Ok_result cached True, w)
      | None \<Rightarrow>
         (let (rateLimit, rl) =
                Ratelimit_limit (ratelimit w) now ''check_username'' \<lparr>ip = ip_address\<rparr>;
              w1 = w\<lparr>ratelimit := rl\<rparr>
          in if \<not> success rateLimit
             then (Rate_limited \<lceil>(of_int (reset rateLimit - now) :: rat) / 1000\<rceil>, w1)
             else
              (let (response, w2) = fetchWithCookies org (Get_availability username) w1
               in if r_status response \<noteq> 200 \<and> r_status response \<noteq> 400
                  then (Hytale_api_error (r_status response), w2)
                  else
                   (let available = (r_status response = 200)
                    in (Ok_result available False,
                        w2\<lparr>redis := setCachedAvailability (redis w2) now username available\<rparr>)))))"

section \<open>The handlers\<close>

text \<open>
  The reply of \<open>GET /check/:username\<close>: the body with status 200, the status 429 with
  its \<open>retry-after\<close>, or the status 502 with the origin's status. The handler awaits
  \<open>ensureLoggedIn\<close> first; a process that has sent itself \<open>SIGTERM\<close> replies
  nothing.
\<close>

datatype check_reply =
    Reply_200 string bool bool
  | Reply_429 int
  | Reply_502 nat

fun reply_of :: "string \<Rightarrow> CheckResult \<Rightarrow> check_reply" where
  "reply_of username (Rate_limited retryAfter) = Reply_429 retryAfter"
| "reply_of username (Hytale_api_error status) = Reply_502 status"
| "reply_of username (Ok_result available cached) = Reply_200 username available cached"

definition get_check ::
  "origin \<Rightarrow> int \<Rightarrow> string \<Rightarrow> string option \<Rightarrow> world \<Rightarrow> check_reply option \<times> world" where
  "get_check org now username address w =
     (let w1 = ensureLoggedIn org now w
      in if sigterm w1 then (None, w1)
         else
          (let ip_address = (case address of Some a \<Rightarrow> a | None \<Rightarrow> ''unknown'');
               (result, w2) = checkUsername org now username ip_address w1
           in (Some (reply_of username result), w2)))"

text \<open>
  The arithmetic of \<open>GET /status\<close> is on doubles. \<open>to_double\<close> is the double
  nearest to a rational, ties to the even significand: the significand has 53 bits
  and \<open>exponent\<close> is the power of two at or below the magnitude. The values at hand
  are far from the ends of the exponent range, which is left unbounded.
  \<open>divide_double\<close> is \<open>/\<close> on two doubles. The difference of two instants is an
  integer below \<open>2 ^ 53\<close> and exact.
\<close>

definition roundTiesToEven :: "rat \<Rightarrow> int" where
  "roundTiesToEven q =
     (let f = \<lfloor>q\<rfloor>; r = q - of_int f
      in if r < 1 / 2 then f else if 1 / 2 < r then f + 1 else if even f then f else f + 1)"

definition exponent :: "rat \<Rightarrow> int" where
  "exponent y =
     (let (a, b) = quotient_of y;
          k = bitlen a - bitlen b
      in if 2 powi k \<le> y then k else k - 1)"

definition to_double :: "rat \<Rightarrow> rat" where
  "to_double x =
     (if x = 0 then 0
      else (let ulp = 2 powi (exponent \<bar>x\<bar> - 52)
            in sgn x * of_int (roundTiesToEven (\<bar>x\<bar> / ulp)) * ulp))"

definition divide_double :: "rat \<Rightarrow> rat \<Rightarrow> rat" where
  "divide_double x y = to_double (x / y)"

text \<open>
  \<open>toFixed2\<close> is \<open>Number(x.toFixed(2))\<close> for a double \<open>x\<close>: \<open>toFixed\<close> takes the
  exact value of the double and gives the multiple of 0.01 nearest to it, the one of
  larger magnitude where two are as near; the reply carries that decimal (minus zero
  is printed as zero). \<open>expiresAt\<close> is the instant whose ISO string the handler
  returns; \<open>toISOString\<close> of the invalid date throws.
\<close>

definition toFixed2 :: "rat \<Rightarrow> rat" where
  "toFixed2 x = sgn x * of_int \<lfloor>\<bar>x\<bar> * 100 + 1 / 2\<rfloor> / 100"

datatype js_error = RangeError

record status_reply =
  loggedIn :: bool
  expiresAt :: "int option"
  hoursLeft :: "rat option"

definition get_status :: "int \<Rightarrow> world \<Rightarrow> js_error + status_reply" where
  "get_status now w =
     (let loggedIn = isSessionValid (cookieJar w) now
      in case getSessionExpiry (cookieJar w) now of
           None \<Rightarrow> Inr \<lparr>loggedIn = loggedIn, expiresAt = None, hoursLeft = None\<rparr>
         | Some Invalid_date \<Rightarrow> Inl RangeError
         | Some (Date_ms ms) \<Rightarrow>
            (let hoursLeft =
                   divide_double (divide_double (divide_double (of_int (ms - now)) 1000) 60) 60
             in Inr \<lparr>loggedIn = loggedIn, expiresAt = Some ms,
                     hoursLeft = (if hoursLeft \<noteq> 0 then Some (toFixed2 hoursLeft) else None)\<rparr>))"

section \<open>Callers that overlap\<close>

text \<open>
  \<open>ensureLoggedIn\<close> is an \<open>async\<close> function: a caller runs until its first
  \<open>await\<close> without interruption and is suspended there while other callers run. Its
  first suspension is inside \<open>login\<close>, after the first request has been sent. A step
  of the server is either a caller entering \<open>ensureLoggedIn\<close> at some time
  (\<open>Call\<close>) or the login of a suspended caller running on from the arrival of its
  first response (\<open>Resume\<close>); the later suspensions of \<open>login\<close> are not separated.
\<close>

datatype caller = Not_called | Login_in_flight | Returned

record server =
  process :: world
  callers :: "caller list"

datatype event = Call nat int | Resume nat

fun step :: "origin \<Rightarrow> event \<Rightarrow> server \<Rightarrow> server" where
  "step org (Call i now) s =
     (if i < length (callers s) \<and> callers s ! i = Not_called
      then (if isSessionValid (cookieJar (process s)) now
            then s\<lparr>callers := (callers s)[i := Returned]\<rparr>
            else s\<lparr>process := send Get_login_browser (process s),
                   callers := (callers s)[i := Login_in_flight]\<rparr>)
      else s)"
| "step org (Resume i) s =
     (if i < length (callers s) \<and> callers s ! i = Login_in_flight
      then (case login_resume org (process s) of
              (Inr _, w') \<Rightarrow> s\<lparr>process := w', callers := (callers s)[i := Returned]\<rparr>
            | (Inl error, w') \<Rightarrow>
                s\<lparr>process := w'\<lparr>sigterm := True\<rparr>, callers := (callers s)[i := Returned]\<rparr>)
      else s)"

definition logins_in_flight :: "server \<Rightarrow> nat" where
  "logins_in_flight s = length (filter (\<lambda>c. c = Login_in_flight) (callers s))"

section \<open>Example inputs\<close>

text \<open>
  Inputs for the examples below: cookies, an origin whose login succeeds and whose
  availability endpoint answers 400 for \<open>taken\<close>, 500 for \<open>broken\<close> and 200 otherwise,
  a session cookie whose \<open>Max-Age\<close> keeps it in the jar beyond its \<open>Expires\<close> date,
  four origins whose login fails (no flow identifier, no CSRF cookie, credentials
  rejected, redirect to another page), and states of the process.
\<close>

definition csrf_cookie :: cookie where
  "csrf_cookie =
     \<lparr>c_key = ''csrf_token_806060ca'', c_value = ''tok'', c_expires = Infinity,
      c_maxAge = No_max_age\<rparr>"

definition session_cookie :: "int \<Rightarrow> cookie" where
  "session_cookie ms =
     \<lparr>c_key = ''ory_kratos_session'', c_value = ''s'', c_expires = Expires_at ms,
      c_maxAge = No_max_age\<rparr>"


definition plain_response :: "nat \<Rightarrow> string option \<Rightarrow> response" where
  "plain_response st loc =
     \<lparr>r_status = st, r_location = loc, r_body = [], r_set_cookies = (\<lambda>j. j)\<rparr>"

definition example_origin :: origin where
  "example_origin =
     \<lparr>login_browser =
        \<lparr>r_status = 303, r_location = Some ''https://hytale.com/login?flow=0a1b-22'',
         r_body = [],
         r_set_cookies = (\<lambda>j. j(''https://backend.accounts.hytale.com'' := [csrf_cookie]))\<rparr>,
      login_submit =
        (\<lambda>flowId tok. plain_response 303 (Some ''https://accounts.hytale.com/settings'')),
      redirect_target =
        (\<lambda>url. \<lparr>r_status = 200, r_location = None, r_body = [],
               r_set_cookies = (\<lambda>j. j(''https://hytale.com'' := [session_cookie 86400000]))\<rparr>),
      availability =
        (\<lambda>u. plain_response
               (if u = ''taken'' then 400 else if u = ''broken'' then 500 else 200) None)\<rparr>"





definition empty_world :: world where
  "empty_world =
     \<lparr>redis = Map.empty, ratelimit = (\<lambda>k. []), cookieJar = (\<lambda>url. []), requests = [],
      sigterm = False\<rparr>"

definition cached_world :: world where
  "cached_world = empty_world\<lparr>redis := setCachedAvailability Map.empty 0 ''Foo'' False\<rparr>"

definition logged_in_world :: world where
  "logged_in_world = cached_world\<lparr>cookieJar := (\<lambda>url. [session_cookie 86400000])\<rparr>"


definition busy_world :: "nat \<Rightarrow> world" where
  "busy_world n =
     empty_world\<lparr>ratelimit :=
       (\<lambda>k. if k = ''hytale:ratelimit:check_username'' then replicate n 0 else [])\<rparr>"

section \<open>Properties of the cache\<close>

lemma get_after_set_available:
  "getCachedAvailability (setCachedAvailability r t0 u True) t u' =
     (if toLowerCase u' = toLowerCase u
      then (if t < t0 + 60000 then Some True else None)
      else getCachedAvailability r t u')"
  by (simp add: getCachedAvailability_def setCachedAvailability_def redis_get_def
      redis_set_EX_def AVAILABLE_TTL_def)

lemma get_after_set_taken:
  "getCachedAvailability (setCachedAvailability r t0 u False) t u' =
     (if toLowerCase u' = toLowerCase u then Some False
      else getCachedAvailability r t u')"
  by (simp add: getCachedAvailability_def setCachedAvailability_def redis_get_def
      redis_set_def)

text \<open>
  C3. For usernames \<open>u\<close> and \<open>u'\<close> with the same lowercase form, a read after
  \<open>setCachedAvailability u true\<close> at time \<open>t0\<close> gives \<open>Some True\<close> while less than
  60 seconds have passed and \<open>None\<close> once more than 60 seconds have passed; a read after
  \<open>setCachedAvailability u false\<close> gives \<open>Some False\<close> at every time.
\<close>

theorem cache_set_get_ttl:
  assumes "toLowerCase u = toLowerCase u'"
  shows "(t < t0 + 60000 \<longrightarrow>
            getCachedAvailability (setCachedAvailability r t0 u True) t u' = Some True)
       \<and> (t0 + 60000 < t \<longrightarrow>
            getCachedAvailability (setCachedAvailability r t0 u True) t u' = None)
       \<and> getCachedAvailability (setCachedAvailability r t0 u False) t' u' = Some False"
  using assms by (simp add: get_after_set_available get_after_set_taken)

theorem cache_set_get_ttl_witness:
  "toLowerCase ''Foo'' = toLowerCase ''foo''
   \<and> getCachedAvailability (setCachedAvailability Map.empty 1000 ''Foo'' True) 60999 ''foo''
       = Some True
   \<and> getCachedAvailability (setCachedAvailability Map.empty 1000 ''Foo'' True) 61001 ''foo''
       = None
   \<and> getCachedAvailability (setCachedAvailability Map.empty 1000 ''Foo'' False) 999999999 ''foo''
       = Some False"
proof -
  have h: "toLowerCase ''Foo'' = toLowerCase ''foo''"
    by code_simp
  show ?thesis
    using h
      cache_set_get_ttl [OF h, of 60999 1000 Map.empty 999999999]
      cache_set_get_ttl [OF h, of 61001 1000 Map.empty 999999999]
    by simp
qed

section \<open>Properties of checkUsername\<close>

lemma login_sends_first:
  "\<exists>rest. requests (snd (login org w)) = requests w @ Get_login_browser # rest"
  by (auto simp: login_def login_resume_def send_def receive_def fetchWithCookies_def
      Let_def case_prod_beta split: option.splits)

lemma ensureLoggedIn_sends_first:
  "\<not> isSessionValid (cookieJar w) now \<Longrightarrow>
     \<exists>rest. requests (ensureLoggedIn org now w) = requests w @ Get_login_browser # rest"
  using login_sends_first [of org w]
  by (auto simp: ensureLoggedIn_def split: prod.splits sum.splits)

lemma ensureLoggedIn_redis: "redis (ensureLoggedIn org now w) = redis w"
  by (auto simp: ensureLoggedIn_def login_def login_resume_def send_def receive_def
      fetchWithCookies_def Let_def case_prod_beta split: option.splits prod.splits sum.splits)

text \<open>
  C1. When the cache holds an entry for the username, \<open>checkUsername\<close> returns it as
  a cached result and leaves the whole state as it was: the limiter's windows, the
  cookie jar, the requests sent and the store. The handler of \<open>GET /check/:username\<close>
  awaits \<open>ensureLoggedIn\<close> before it calls \<open>checkUsername\<close>: with a valid session
  it replies from the cache and leaves the state as it was, and with a session that is
  not valid it sends the first request of a login before the cache is read.
\<close>

theorem cache_hit_answered_from_cache:
  assumes "getCachedAvailability (redis w) now username = Some available"
  shows "checkUsername org now username ip_address w = (Ok_result available True, w)
       \<and> (isSessionValid (cookieJar w) now \<longrightarrow> \<not> sigterm w \<longrightarrow>
            get_check org now username address w
              = (Some (Reply_200 username available True), w))
       \<and> (\<not> isSessionValid (cookieJar w) now \<longrightarrow>
            (\<exists>rest. requests (snd (get_check org now username address w))
                      = requests w @ Get_login_browser # rest))"
proof -
  have a: "checkUsername org now username ip_address w = (Ok_result available True, w)"
    using assms by (simp add: checkUsername_def)
  have b: "isSessionValid (cookieJar w) now \<Longrightarrow> \<not> sigterm w \<Longrightarrow>
             get_check org now username address w
               = (Some (Reply_200 username available True), w)"
    using assms by (simp add: checkUsername_def get_check_def ensureLoggedIn_def)
  have c: "\<exists>rest. requests (snd (get_check org now username address w))
                      = requests w @ Get_login_browser # rest"
    if "\<not> isSessionValid (cookieJar w) now"
  proof -
    have h: "getCachedAvailability (redis (ensureLoggedIn org now w)) now username = Some available"
      using assms by (simp add: ensureLoggedIn_redis)
    have "requests (snd (get_check org now username address w))
            = requests (ensureLoggedIn org now w)"
      using h by (simp add: get_check_def Let_def checkUsername_def)
    then show ?thesis
      using ensureLoggedIn_sends_first [OF that, of org] by simp
  qed
  show ?thesis using a b c by blast
qed

theorem cache_hit_answered_from_cache_witness:
  "getCachedAvailability (redis logged_in_world) 5 ''foo'' = Some False
   \<and> checkUsername example_origin 5 ''foo'' ''10.0.0.1'' logged_in_world
       = (Ok_result False True, logged_in_world)
   \<and> isSessionValid (cookieJar logged_in_world) 5
   \<and> \<not> sigterm logged_in_world
   \<and> get_check example_origin 5 ''foo'' (Some ''10.0.0.1'') logged_in_world
       = (Some (Reply_200 ''foo'' False True), logged_in_world)
   \<and> getCachedAvailability (redis cached_world) 5 ''foo'' = Some False
   \<and> \<not> isSessionValid (cookieJar cached_world) 5
   \<and> (\<exists>rest. requests (snd (get_check example_origin 5 ''foo'' (Some ''10.0.0.1'')
                                   cached_world))
                = requests cached_world @ Get_login_browser # rest)"
proof -
  have h1: "getCachedAvailability (redis logged_in_world) 5 ''foo'' = Some False"
    by code_simp
  have h2: "isSessionValid (cookieJar logged_in_world) 5"
    by code_simp
  have h3: "\<not> sigterm logged_in_world"
    by code_simp
  have h4: "getCachedAvailability (redis cached_world) 5 ''foo'' = Some False"
    by code_simp
  have h5: "\<not> isSessionValid (cookieJar cached_world) 5"
    by code_simp
  show ?thesis
    using h1 h2 h3 h4 h5
      cache_hit_answered_from_cache [OF h1, where org = example_origin
        and ip_address = "''10.0.0.1''" and address = "Some ''10.0.0.1''"]
      cache_hit_answered_from_cache [OF h4, where org = example_origin
        and address = "Some ''10.0.0.1''"]
    by blast
qed

text \<open>
  A request for a cached username that arrives while the session is not valid: the
  reply comes from the cache, and the handler has sent the three requests of a login
  to the origin before it.
\<close>

theorem cache_hit_login_counterexample:
  "getCachedAvailability (redis cached_world) 5 ''foo'' = Some False
   \<and> requests cached_world = []
   \<and> fst (get_check example_origin 5 ''foo'' (Some ''10.0.0.1'') cached_world)
       = Some (Reply_200 ''foo'' False True)
   \<and> requests (snd (get_check example_origin 5 ''foo'' (Some ''10.0.0.1'') cached_world))
       = [Get_login_browser, Post_login ''0a1b-22'' ''tok'',
          Get_redirect ''https://accounts.hytale.com/settings'']"
  by code_simp

text \<open>
  C2. On a cache miss that the limiter lets pass, the status of the origin's response
  decides the result: 200 gives available, 400 gives taken, both not from the cache,
  and every other status gives the error carrying that status.
\<close>

theorem origin_status_mapping:
  assumes "getCachedAvailability (redis w) now username = None"
      and "success (fst (Ratelimit_limit (ratelimit w) now ''check_username''
                          \<lparr>ip = ip_address\<rparr>))"
  shows "fst (checkUsername org now username ip_address w) =
           (let status = r_status (availability org username)
            in if status = 200 then Ok_result True False
               else if status = 400 then Ok_result False False
               else Hytale_api_error status)"
  using assms
  by (simp add: checkUsername_def fetchWithCookies_def Let_def case_prod_beta)

theorem origin_status_mapping_witness:
  "getCachedAvailability (redis empty_world) 5 ''taken'' = None
   \<and> success (fst (Ratelimit_limit (ratelimit empty_world) 5 ''check_username''
                     \<lparr>ip = ''10.0.0.1''\<rparr>))
   \<and> fst (checkUsername example_origin 5 ''newname'' ''10.0.0.1'' empty_world)
       = Ok_result True False
   \<and> fst (checkUsername example_origin 5 ''taken'' ''10.0.0.1'' empty_world)
       = Ok_result False False
   \<and> fst (checkUsername example_origin 5 ''broken'' ''10.0.0.1'' empty_world)
       = Hytale_api_error 500"
proof -
  have m: "getCachedAvailability (redis empty_world) 5 u = None" for u
    by (simp add: empty_world_def getCachedAvailability_def redis_get_def)
  have h: "success (fst (Ratelimit_limit (ratelimit empty_world) 5 ''check_username''
                          \<lparr>ip = ''10.0.0.1''\<rparr>))"
    by code_simp
  have e: "r_status (availability example_origin ''newname'') = 200"
    "r_status (availability example_origin ''taken'') = 400"
    "r_status (availability example_origin ''broken'') = 500"
    by code_simp+
  show ?thesis
    using m h
      origin_status_mapping [where org = example_origin and username = "''newname''", OF m h]
      origin_status_mapping [where org = example_origin and username = "''taken''", OF m h]
      origin_status_mapping [where org = example_origin and username = "''broken''", OF m h]
    by (simp add: e)
qed

text \<open>
  C5. On a cache miss that the limiter denies, \<open>checkUsername\<close> returns the
  rate-limited error with \<open>retryAfter\<close> the ceiling of \<open>(reset - now) / 1000\<close>, for the
  \<open>reset\<close> the limiter returned, and sends no request to the origin; the cookie jar
  and the store stay as they were.
\<close>

theorem rate_limited_without_origin:
  assumes "getCachedAvailability (redis w) now username = None"
      and "\<not> success (fst (Ratelimit_limit (ratelimit w) now ''check_username''
                            \<lparr>ip = ip_address\<rparr>))"
  shows "fst (checkUsername org now username ip_address w) =
           Rate_limited
             \<lceil>(of_int (reset (fst (Ratelimit_limit (ratelimit w) now ''check_username''
                                     \<lparr>ip = ip_address\<rparr>)) - now) :: rat) / 1000\<rceil>
       \<and> requests (snd (checkUsername org now username ip_address w)) = requests w
       \<and> cookieJar (snd (checkUsername org now username ip_address w)) = cookieJar w
       \<and> redis (snd (checkUsername org now username ip_address w)) = redis w"
  using assms
  by (simp add: checkUsername_def Let_def case_prod_beta)

theorem rate_limited_without_origin_witness:
  "getCachedAvailability (redis (busy_world 30)) 1500 ''newname'' = None
   \<and> \<not> success (fst (Ratelimit_limit (ratelimit (busy_world 30)) 1500 ''check_username''
                       \<lparr>ip = ''10.0.0.1''\<rparr>))
   \<and> fst (checkUsername example_origin 1500 ''newname'' ''10.0.0.1'' (busy_world 30))
       = Rate_limited 59
   \<and> requests (snd (checkUsername example_origin 1500 ''newname'' ''10.0.0.1''
                      (busy_world 30))) = []"
proof -
  have h1: "getCachedAvailability (redis (busy_world 30)) 1500 ''newname'' = None"
    by code_simp
  have h2: "\<not> success (fst (Ratelimit_limit (ratelimit (busy_world 30)) 1500
                              ''check_username'' \<lparr>ip = ''10.0.0.1''\<rparr>))"
    by code_simp
  have e: "reset (fst (Ratelimit_limit (ratelimit (busy_world 30)) 1500 ''check_username''
                        \<lparr>ip = ''10.0.0.1''\<rparr>)) = 60000"
    by code_simp
  have r: "requests (busy_world 30) = []"
    by code_simp
  have c: "\<lceil>(117::rat) / 2\<rceil> = 59"
    by code_simp
  show ?thesis
    using h1 h2 rate_limited_without_origin [OF h1 h2, of example_origin]
    by (simp add: e r c)
qed

lemma miss_stays_miss:
  "getCachedAvailability r t u = None \<Longrightarrow> t \<le> t' \<Longrightarrow> getCachedAvailability r t' u = None"
  by (auto simp: getCachedAvailability_def redis_get_def split: option.splits if_splits)

text \<open>
  C8. On a cache miss that the limiter lets pass, a status of the origin other than
  200 and 400 gives the error carrying that status and leaves the store as it was.
  The same username is therefore a cache miss again at every later time, and a later
  call for it sends the request to the origin again when the limiter lets it pass.
\<close>

theorem origin_error_not_cached:
  assumes "getCachedAvailability (redis w) now username = None"
      and "success (fst (Ratelimit_limit (ratelimit w) now ''check_username''
                          \<lparr>ip = ip_address\<rparr>))"
      and "r_status (availability org username) \<noteq> 200"
      and "r_status (availability org username) \<noteq> 400"
      and "w' = snd (checkUsername org now username ip_address w)"
      and "now \<le> now'"
  shows "fst (checkUsername org now username ip_address w)
           = Hytale_api_error (r_status (availability org username))
       \<and> redis w' = redis w
       \<and> getCachedAvailability (redis w') now' username = None
       \<and> (success (fst (Ratelimit_limit (ratelimit w') now' ''check_username''
                           \<lparr>ip = ip_address\<rparr>))
            \<longrightarrow> requests (snd (checkUsername org now' username ip_address w'))
                  = requests w' @ [Get_availability username])"
proof -
  have r: "redis w' = redis w"
    using assms(1-5)
    by (simp add: checkUsername_def fetchWithCookies_def send_def receive_def Let_def
        case_prod_beta)
  have m: "getCachedAvailability (redis w') now' username = None"
    using miss_stays_miss [OF assms(1) assms(6)] r by simp
  have f: "fst (checkUsername org now username ip_address w)
             = Hytale_api_error (r_status (availability org username))"
    using assms(1-4)
    by (simp add: checkUsername_def fetchWithCookies_def Let_def case_prod_beta)
  have n: "success (fst (Ratelimit_limit (ratelimit w') now' ''check_username''
                           \<lparr>ip = ip_address\<rparr>))
            \<Longrightarrow> requests (snd (checkUsername org now' username ip_address w'))
                  = requests w' @ [Get_availability username]"
    using m
    by (simp add: checkUsername_def fetchWithCookies_def send_def receive_def Let_def
        case_prod_beta)
  show ?thesis using r m f n by blast
qed

theorem origin_error_not_cached_witness:
  "getCachedAvailability (redis empty_world) 1500 ''broken'' = None
   \<and> success (fst (Ratelimit_limit (ratelimit empty_world) 1500 ''check_username''
                     \<lparr>ip = ''10.0.0.1''\<rparr>))
   \<and> r_status (availability example_origin ''broken'') = 500
   \<and> (1500::int) \<le> 1600
   \<and> success (fst (Ratelimit_limit
                     (ratelimit (snd (checkUsername example_origin 1500 ''broken'' ''10.0.0.1''
                                       empty_world)))
                     1600 ''check_username'' \<lparr>ip = ''10.0.0.1''\<rparr>))
   \<and> fst (checkUsername example_origin 1500 ''broken'' ''10.0.0.1'' empty_world)
       = Hytale_api_error 500
   \<and> getCachedAvailability
         (redis (snd (checkUsername example_origin 1500 ''broken'' ''10.0.0.1'' empty_world)))
         1600 ''broken'' = None
   \<and> requests (snd (checkUsername example_origin 1600 ''broken'' ''10.0.0.1''
                (snd (checkUsername example_origin 1500 ''broken'' ''10.0.0.1'' empty_world))))
       = [Get_availability ''broken'', Get_availability ''broken'']"
proof -
  have h1: "getCachedAvailability (redis empty_world) 1500 ''broken'' = None"
    by code_simp
  have h2: "success (fst (Ratelimit_limit (ratelimit empty_world) 1500 ''check_username''
                           \<lparr>ip = ''10.0.0.1''\<rparr>))"
    by code_simp
  have e: "r_status (availability example_origin ''broken'') = 500"
    by code_simp
  have h3: "r_status (availability example_origin ''broken'') \<noteq> 200"
    and h4: "r_status (availability example_origin ''broken'') \<noteq> 400"
    by (simp_all add: e)
  have h5: "(1500::int) \<le> 1600"
    by simp
  have h6: "success (fst (Ratelimit_limit
                     (ratelimit (snd (checkUsername example_origin 1500 ''broken'' ''10.0.0.1''
                                       empty_world)))
                     1600 ''check_username'' \<lparr>ip = ''10.0.0.1''\<rparr>))"
    by code_simp
  have r: "requests (snd (checkUsername example_origin 1500 ''broken'' ''10.0.0.1'' empty_world))
             = [Get_availability ''broken'']"
    by code_simp
  note t = origin_error_not_cached [OF h1 h2 h3 h4 refl h5]
  have a: "fst (checkUsername example_origin 1500 ''broken'' ''10.0.0.1'' empty_world)
             = Hytale_api_error 500"
    using t by (simp add: e)
  have b: "getCachedAvailability
             (redis (snd (checkUsername example_origin 1500 ''broken'' ''10.0.0.1'' empty_world)))
             1600 ''broken'' = None"
    using t by blast
  have c: "requests (snd (checkUsername example_origin 1600 ''broken'' ''10.0.0.1''
                (snd (checkUsername example_origin 1500 ''broken'' ''10.0.0.1'' empty_world))))
             = [Get_availability ''broken'', Get_availability ''broken'']"
    using t h6 by (simp add: r)
  show ?thesis
    using h1 h2 e h5 h6 a b c by blast
qed

text \<open>
  A call that ends in the origin's status 500 and takes the last permit of the window:
  the same call one millisecond later is denied by the limiter and sends nothing to
  the origin.
\<close>

theorem origin_error_retry_counterexample:
  "getCachedAvailability (redis (busy_world 29)) 1500 ''broken'' = None
   \<and> fst (checkUsername example_origin 1500 ''broken'' ''10.0.0.1'' (busy_world 29))
       = Hytale_api_error 500
   \<and> requests (snd (checkUsername example_origin 1500 ''broken'' ''10.0.0.1'' (busy_world 29)))
       = [Get_availability ''broken'']
   \<and> fst (checkUsername example_origin 1501 ''broken'' ''10.0.0.1''
            (snd (checkUsername example_origin 1500 ''broken'' ''10.0.0.1'' (busy_world 29))))
       = Rate_limited 59
   \<and> requests (snd (checkUsername example_origin 1501 ''broken'' ''10.0.0.1''
            (snd (checkUsername example_origin 1500 ''broken'' ''10.0.0.1'' (busy_world 29)))))
       = [Get_availability ''broken'']"
  by code_simp

lemma fold_min_zeros: "fold min (replicate n (0::int)) 0 = 0"
  by (induction n) simp_all

lemma granted_call:
  assumes "redis w = Map.empty"
      and "ratelimit w (getKey ''check_username'') = replicate n 0"
      and "requests w = replicate n (Get_availability ''broken'')"
      and "n < 30"
      and "w' = snd (checkUsername example_origin 0 ''broken'' ''10.0.0.1'' w)"
  shows "redis w' = Map.empty
       \<and> ratelimit w' (getKey ''check_username'') = replicate (Suc n) 0
       \<and> requests w' = replicate (Suc n) (Get_availability ''broken'')"
proof -
  have m: "getCachedAvailability (redis w) 0 ''broken'' = None"
    using assms(1) by (simp add: getCachedAvailability_def redis_get_def)
  have l: "Ratelimit_limit (ratelimit w) 0 ''check_username'' \<lparr>ip = ''10.0.0.1''\<rparr>
             = (\<lparr>success = True, reset = fold min (replicate n 0) 0 + WINDOW_MS\<rparr>,
                (ratelimit w)(getKey ''check_username'' := replicate (Suc n) 0))"
    using assms(2,4) by (simp add: Ratelimit_limit_def Let_def TOKENS_def WINDOW_MS_def)
  have s: "r_status (availability example_origin ''broken'') = 500"
    by (simp add: example_origin_def plain_response_def)
  show ?thesis
    using assms(1,3) m
    by (simp add: assms(5) checkUsername_def l s fetchWithCookies_def send_def receive_def
        Let_def replicate_append_same)
qed

lemma after_calls:
  "n \<le> 30 \<Longrightarrow>
     redis (((\<lambda>w. snd (checkUsername example_origin 0 ''broken'' ''10.0.0.1'' w)) ^^ n) empty_world)
       = Map.empty
   \<and> ratelimit (((\<lambda>w. snd (checkUsername example_origin 0 ''broken'' ''10.0.0.1'' w)) ^^ n)
        empty_world) (getKey ''check_username'') = replicate n 0
   \<and> requests (((\<lambda>w. snd (checkUsername example_origin 0 ''broken'' ''10.0.0.1'' w)) ^^ n)
        empty_world) = replicate n (Get_availability ''broken'')"
proof (induction n)
  case 0
  show ?case by (simp add: empty_world_def)
next
  case (Suc n)
  then have n: "n < 30" and ih:
    "redis (((\<lambda>w. snd (checkUsername example_origin 0 ''broken'' ''10.0.0.1'' w)) ^^ n) empty_world)
       = Map.empty"
    "ratelimit (((\<lambda>w. snd (checkUsername example_origin 0 ''broken'' ''10.0.0.1'' w)) ^^ n)
        empty_world) (getKey ''check_username'') = replicate n 0"
    "requests (((\<lambda>w. snd (checkUsername example_origin 0 ''broken'' ''10.0.0.1'' w)) ^^ n)
        empty_world) = replicate n (Get_availability ''broken'')"
    by simp_all
  show ?case
    using granted_call [OF ih n refl] by simp
qed

text \<open>
  C4. The identifier that \<open>checkUsername\<close> passes to the limiter is the constant
  \<open>check_username\<close>, whoever calls, so every caller draws on one window. Thirty calls
  from the address 10.0.0.1 that reach the origin use it up: the call from 10.0.0.2
  one millisecond later, the first of that caller, is denied.
\<close>

theorem rate_limit_shared_by_callers:
  "requests
     (((\<lambda>w. snd (checkUsername example_origin 0 ''broken'' ''10.0.0.1'' w)) ^^ 30) empty_world)
     = replicate 30 (Get_availability ''broken'')
   \<and> fst (checkUsername example_origin 1 ''broken'' ''10.0.0.2''
            (((\<lambda>w. snd (checkUsername example_origin 0 ''broken'' ''10.0.0.1'' w)) ^^ 30)
               empty_world))
       = Rate_limited 60"
proof -
  let ?w = "((\<lambda>w. snd (checkUsername example_origin 0 ''broken'' ''10.0.0.1'' w)) ^^ 30) empty_world"
  have a: "redis ?w = Map.empty"
    "ratelimit ?w (getKey ''check_username'') = replicate 30 0"
    "requests ?w = replicate 30 (Get_availability ''broken'')"
    using after_calls [of 30] by simp_all
  have m: "getCachedAvailability (redis ?w) 1 ''broken'' = None"
    using a(1) by (simp add: getCachedAvailability_def redis_get_def)
  have f: "fold min (replicate 30 (0::int)) 1 = 0"
    using fold_min_zeros [of 29] by (simp add: eval_nat_numeral)
  have l: "fst (Ratelimit_limit (ratelimit ?w) 1 ''check_username'' \<lparr>ip = ''10.0.0.2''\<rparr>)
             = \<lparr>success = False, reset = 60000\<rparr>"
    using a(2) f by (simp add: Ratelimit_limit_def Let_def TOKENS_def WINDOW_MS_def)
  have c: "\<lceil>(59999::rat) / 1000\<rceil> = 60"
    by code_simp
  have "fst (checkUsername example_origin 1 ''broken'' ''10.0.0.2'' ?w) = Rate_limited 60"
    using m l c by (simp add: checkUsername_def Let_def case_prod_beta)
  with a(3) show ?thesis by simp
qed


section \<open>Properties of the session\<close>

text \<open>
  C7. \<open>isSessionValid\<close> is a function of the cookie jar and the current time alone.
  Over the cookies the jar returns, it is false when there is no session cookie, and
  false when the current time is within five minutes of the cookie's expiry or past
  it; it is true before that. A cookie that expires in three minutes gives false, one
  that expires in ten minutes gives true.
\<close>

theorem session_valid_margin:
  "(find (\<lambda>c. c_key c = ''ory_kratos_session'')
      (getCookiesSync jar now ''https://hytale.com'') = None
      \<longrightarrow> \<not> isSessionValid jar now)
 \<and> (find (\<lambda>c. c_key c = ''ory_kratos_session'')
      (getCookiesSync jar now ''https://hytale.com'') = Some c
      \<and> c_expires c = Expires_at e \<and> e - 5 * 60 * 1000 \<le> now
      \<longrightarrow> \<not> isSessionValid jar now)
 \<and> (find (\<lambda>c. c_key c = ''ory_kratos_session'')
      (getCookiesSync jar now ''https://hytale.com'') = Some c
      \<and> c_expires c = Expires_at e \<and> now < e - 5 * 60 * 1000
      \<longrightarrow> isSessionValid jar now)
 \<and> (find (\<lambda>c. c_key c = ''ory_kratos_session'')
      (getCookiesSync jar now ''https://hytale.com'') = Some c
      \<and> c_expires c = Expires_at (now + 3 * 60 * 1000)
      \<longrightarrow> \<not> isSessionValid jar now)
 \<and> (find (\<lambda>c. c_key c = ''ory_kratos_session'')
      (getCookiesSync jar now ''https://hytale.com'') = Some c
      \<and> c_expires c = Expires_at (now + 10 * 60 * 1000)
      \<longrightarrow> isSessionValid jar now)"
  by (simp add: isSessionValid_def)

theorem session_valid_margin_witness:
  "find (\<lambda>c. c_key c = ''ory_kratos_session'')
     (getCookiesSync (cookieJar empty_world) 0 ''https://hytale.com'') = None
   \<and> \<not> isSessionValid (cookieJar empty_world) 0
   \<and> find (\<lambda>c. c_key c = ''ory_kratos_session'')
        (getCookiesSync (cookieJar logged_in_world) 86220000 ''https://hytale.com'')
        = Some (session_cookie 86400000)
   \<and> c_expires (session_cookie 86400000) = Expires_at (86220000 + 3 * 60 * 1000)
   \<and> \<not> isSessionValid (cookieJar logged_in_world) 86220000
   \<and> find (\<lambda>c. c_key c = ''ory_kratos_session'')
        (getCookiesSync (cookieJar logged_in_world) 85800000 ''https://hytale.com'')
        = Some (session_cookie 86400000)
   \<and> c_expires (session_cookie 86400000) = Expires_at (85800000 + 10 * 60 * 1000)
   \<and> isSessionValid (cookieJar logged_in_world) 85800000"
proof -
  have h1: "find (\<lambda>c. c_key c = ''ory_kratos_session'')
              (getCookiesSync (cookieJar empty_world) 0 ''https://hytale.com'') = None"
    by code_simp
  have h2: "find (\<lambda>c. c_key c = ''ory_kratos_session'')
              (getCookiesSync (cookieJar logged_in_world) 86220000 ''https://hytale.com'')
              = Some (session_cookie 86400000)"
    "find (\<lambda>c. c_key c = ''ory_kratos_session'')
              (getCookiesSync (cookieJar logged_in_world) 85800000 ''https://hytale.com'')
              = Some (session_cookie 86400000)"
    by (simp_all add: logged_in_world_def session_cookie_def getCookiesSync_def expired_def)
  have h3: "c_expires (session_cookie 86400000) = Expires_at (86220000 + 3 * 60 * 1000)"
    and h4: "c_expires (session_cookie 86400000) = Expires_at (85800000 + 10 * 60 * 1000)"
    by (simp_all add: session_cookie_def)
  show ?thesis
    using h1 h2 h3 h4
      session_valid_margin [where jar = "cookieJar empty_world" and now = 0]
      session_valid_margin [where jar = "cookieJar logged_in_world"
        and c = "session_cookie 86400000" and now = 86220000]
      session_valid_margin [where jar = "cookieJar logged_in_world"
        and c = "session_cookie 86400000" and now = 85800000]
    by blast
qed



section \<open>Properties of the status handler\<close>


















lemma status_of_invalid_date:
  "getSessionExpiry (cookieJar w) now = Some Invalid_date \<Longrightarrow> get_status now w = Inl RangeError"
  by (simp add: get_status_def)




section \<open>Properties of overlapping callers\<close>

text \<open>A single caller's two steps are \<open>ensureLoggedIn\<close>.\<close>

lemma single_caller:
  "process (step org (Resume 0) (step org (Call 0 now) \<lparr>process = w, callers = [Not_called]\<rparr>))
     = ensureLoggedIn org now w"
  by (simp add: ensureLoggedIn_def login_def split: prod.splits sum.splits)

lemma count_update:
  "i < length xs \<Longrightarrow> \<not> P (xs ! i) \<Longrightarrow>
     length (filter P (xs[i := y])) = length (filter P xs) + (if P y then 1 else 0)"
proof (induction xs arbitrary: i)
  case Nil
  then show ?case by simp
next
  case (Cons x xs)
  then show ?case by (cases i) auto
qed

text \<open>
  C9. \<open>ensureLoggedIn\<close> has no guard against overlapping callers. A caller that sees
  a session that is not valid starts a login of its own, whatever logins are in
  flight: the number of logins in flight grows by one, one more first request is sent,
  and the cookie jar stays as it was, so the next caller sees the same session. A
  caller that sees a valid session returns and changes nothing.
\<close>

theorem every_invalid_caller_logs_in:
  assumes "i < length (callers s)" and "callers s ! i = Not_called"
  shows "(\<not> isSessionValid (cookieJar (process s)) now \<longrightarrow>
            callers (step org (Call i now) s) ! i = Login_in_flight
          \<and> logins_in_flight (step org (Call i now) s) = logins_in_flight s + 1
          \<and> requests (process (step org (Call i now) s))
              = requests (process s) @ [Get_login_browser]
          \<and> cookieJar (process (step org (Call i now) s)) = cookieJar (process s))
       \<and> (isSessionValid (cookieJar (process s)) now \<longrightarrow>
            callers (step org (Call i now) s) ! i = Returned
          \<and> logins_in_flight (step org (Call i now) s) = logins_in_flight s
          \<and> process (step org (Call i now) s) = process s)"
  using assms by (simp add: logins_in_flight_def count_update send_def)

theorem every_invalid_caller_logs_in_witness:
  "(1::nat) < length [Login_in_flight, Not_called]
   \<and> [Login_in_flight, Not_called] ! 1 = Not_called
   \<and> \<not> isSessionValid (cookieJar empty_world) 5
   \<and> logins_in_flight (step example_origin (Call 1 5)
        \<lparr>process = empty_world, callers = [Login_in_flight, Not_called]\<rparr>) = 2
   \<and> isSessionValid (cookieJar logged_in_world) 5
   \<and> logins_in_flight (step example_origin (Call 1 5)
        \<lparr>process = logged_in_world, callers = [Login_in_flight, Not_called]\<rparr>) = 1"
proof -
  have h1: "(1::nat) < length (callers \<lparr>process = p, callers = [Login_in_flight, Not_called]\<rparr>)"
    and h2: "callers \<lparr>process = p, callers = [Login_in_flight, Not_called]\<rparr> ! 1 = Not_called"
    for p
    by simp_all
  have h3: "\<not> isSessionValid (cookieJar empty_world) 5"
    by code_simp
  have h4: "isSessionValid (cookieJar logged_in_world) 5"
    by code_simp
  show ?thesis
    using h3 h4
      every_invalid_caller_logs_in [where i = 1 and now = 5 and org = example_origin
        and s = "\<lparr>process = empty_world, callers = [Login_in_flight, Not_called]\<rparr>",
        OF h1 h2]
      every_invalid_caller_logs_in [where i = 1 and now = 5 and org = example_origin
        and s = "\<lparr>process = logged_in_world, callers = [Login_in_flight, Not_called]\<rparr>",
        OF h1 h2]
    by (simp add: logins_in_flight_def)
qed

text \<open>
  Two callers enter while the session is not valid, the second before the first
  login has gone on: two logins are in flight and the first request of a login has
  been sent twice.
\<close>

theorem two_logins_in_flight_counterexample:
  "\<not> isSessionValid (cookieJar empty_world) 5
   \<and> logins_in_flight
       (step example_origin (Call 1 5)
         (step example_origin (Call 0 5)
           \<lparr>process = empty_world, callers = [Not_called, Not_called]\<rparr>)) = 2
   \<and> requests (process
       (step example_origin (Call 1 5)
         (step example_origin (Call 0 5)
           \<lparr>process = empty_world, callers = [Not_called, Not_called]\<rparr>)))
       = [Get_login_browser, Get_login_browser]"
  by code_simp

end
